theory Spec2Isabelle
  imports Main
begin

section \<open>The Bearer-token gate of the Express server\<close>

text \<open>
  The server file defines one piece of logic, the middleware \<open>authMiddleware\<close>:
  \<^verbatim>\<open>
  const authMiddleware = (req, res, next) => {
    const authHeader = req.headers.authorization;
    if (!authHeader) {
      return res.status(401).json({ error: "Missing authorization header" });
    }
    const token = authHeader.split(" ")[1];
    if (!token) {
      return res.status(401).json({ error: "Invalid authorization header format" });
    }
    if (token !== process.env.API_KEY) {
      return res.status(403).json({ error: "Invalid API key" });
    }
    next();
  };
  \<close>
  It reads \<open>req.headers.authorization\<close> (a string or \<open>undefined\<close>) and
  \<open>process.env.API_KEY\<close> (a string or \<open>undefined\<close>), and either writes a status
  and a JSON body to \<open>res\<close> or calls \<open>next\<close>.
\<close>

subsection \<open>Data\<close>

text \<open>
  Node hands header values over as strings of one character per byte, so a JavaScript
  string is a \<open>string\<close> here; \<open>undefined\<close> is \<open>None\<close>. (A secret with a
  character beyond one byte equals no header token; such secrets are outside this model.)
  The objects
  \<open>req.headers\<close>, \<open>req\<close>, \<open>res\<close> and \<open>process.env\<close> are records with the
  fields the middleware touches; every other field they carry lives in the extension
  part of the record scheme.
\<close>

record incoming_headers =
  authorization :: "string option"

record 'h request =
  headers :: "'h incoming_headers_scheme"

record process_env =
  API_KEY :: "string option"

datatype json = JString string | JObject "(string \<times> json) list"

record response =
  statusCode :: nat
  body :: "json option"

text \<open>What the middleware did with the request: it called \<open>next()\<close>, or it ended
  the exchange by sending a response.\<close>

datatype control = Next | Ended

text \<open>Calling a method on \<open>undefined\<close> throws.\<close>

datatype error = TypeError

subsection \<open>The JavaScript operations the middleware uses\<close>

text \<open>\<open>!v\<close> for a value that is a string or \<open>undefined\<close>: true for
  \<open>undefined\<close> and for the empty string.\<close>

fun falsy :: "string option \<Rightarrow> bool" where
  "falsy None = True"
| "falsy (Some s) = (s = [])"

text \<open>
  \<open>s.split(sep)\<close> for a separator of one character: the pieces of \<open>s\<close> between
  the occurrences of \<open>sep\<close>, in order. Pieces may be empty, and a string without the
  separator (the empty string too) is a single piece. \<open>cur\<close> is the piece being read.
\<close>

fun split_from :: "char \<Rightarrow> string \<Rightarrow> string \<Rightarrow> string list" where
  "split_from sep cur [] = [cur]"
| "split_from sep cur (c # cs) =
     (if c = sep then cur # split_from sep [] cs else split_from sep (cur @ [c]) cs)"

definition split_on :: "char \<Rightarrow> string \<Rightarrow> string list" where
  "split_on sep s = split_from sep [] s"

text \<open>\<open>authHeader.split(" ")\<close>, a method call on a value that may be
  \<open>undefined\<close>.\<close>

fun call_split :: "string option \<Rightarrow> char \<Rightarrow> error + string list" where
  "call_split None sep = Inl TypeError"
| "call_split (Some s) sep = Inr (split_on sep s)"

text \<open>\<open>xs[i]\<close>: \<open>undefined\<close> out of range.\<close>

definition array_at :: "'a list \<Rightarrow> nat \<Rightarrow> 'a option" where
  "array_at xs i = (if i < length xs then Some (xs ! i) else None)"

text \<open>\<open>res.status(code)\<close> and \<open>res.json(obj)\<close> of Express.\<close>

definition status :: "nat \<Rightarrow> 'r response_scheme \<Rightarrow> 'r response_scheme" where
  "status code res = res\<lparr>statusCode := code\<rparr>"

definition send_json :: "json \<Rightarrow> 'r response_scheme \<Rightarrow> 'r response_scheme" where
  "send_json obj res = res\<lparr>body := Some obj\<rparr>"

text \<open>The object literal \<open>{ error: msg }\<close>.\<close>

definition error_object :: "string \<Rightarrow> json" where
  "error_object msg = JObject [(''error'', JString msg)]"

subsection \<open>The middleware\<close>

definition authMiddleware ::
  "'e process_env_scheme \<Rightarrow> ('h, 'a) request_scheme \<Rightarrow> 'r response_scheme
     \<Rightarrow> error + (('h, 'a) request_scheme \<times> 'r response_scheme \<times> control)" where
  "authMiddleware env req res =
     (let authHeader = authorization (headers req) in
      if falsy authHeader then
        Inr (req, send_json (error_object ''Missing authorization header'') (status 401 res), Ended)
      else
        case call_split authHeader (CHR '' '') of
          Inl e \<Rightarrow> Inl e
        | Inr pieces \<Rightarrow>
            (let token = array_at pieces 1 in
             if falsy token then
               Inr (req, send_json (error_object ''Invalid authorization header format'')
                           (status 401 res), Ended)
             else if token \<noteq> API_KEY env then
               Inr (req, send_json (error_object ''Invalid API key'') (status 403 res), Ended)
             else
               Inr (req, res, Next)))"

text \<open>
  \<open>app.use("/hot-updater/api", authMiddleware)\<close> followed by the route that hands the
  request to \<open>hotUpdaterHandler\<close>: Express runs the handler only when the middleware
  called \<open>next()\<close>. The handler belongs to the framework and is a parameter; an
  error thrown by the middleware would be passed on instead of a response.
\<close>

definition gated ::
  "(('h, 'a) request_scheme \<Rightarrow> 'r response_scheme
      \<Rightarrow> ('h, 'a) request_scheme \<times> 'r response_scheme)
     \<Rightarrow> 'e process_env_scheme \<Rightarrow> ('h, 'a) request_scheme \<Rightarrow> 'r response_scheme
     \<Rightarrow> error + (('h, 'a) request_scheme \<times> 'r response_scheme)" where
  "gated handler env req res =
     (case authMiddleware env req res of
        Inl e \<Rightarrow> Inl e
      | Inr (req', res', Next) \<Rightarrow> Inr (handler req' res')
      | Inr (req', res', Ended) \<Rightarrow> Inr (req', res'))"

subsection \<open>Vocabulary of the properties\<close>

text \<open>The three rejections, as the responses the middleware writes: the status code
  and the JSON error body.\<close>

definition missing_header :: "'r response_scheme \<Rightarrow> 'r response_scheme" where
  "missing_header res =
     res\<lparr>statusCode := 401,
         body := Some (JObject [(''error'', JString ''Missing authorization header'')])\<rparr>"

definition malformed_header :: "'r response_scheme \<Rightarrow> 'r response_scheme" where
  "malformed_header res =
     res\<lparr>statusCode := 401,
         body := Some (JObject [(''error'', JString ''Invalid authorization header format'')])\<rparr>"

definition invalid_token :: "'r response_scheme \<Rightarrow> 'r response_scheme" where
  "invalid_token res =
     res\<lparr>statusCode := 403,
         body := Some (JObject [(''error'', JString ''Invalid API key'')])\<rparr>"

text \<open>What a run of the middleware decided, and the response it left.\<close>

definition control_of :: "error + ('q \<times> 'r \<times> control) \<Rightarrow> error + control" where
  "control_of = map_sum id (snd \<circ> snd)"

definition response_of :: "error + ('q \<times> 'r \<times> control) \<Rightarrow> error + 'r" where
  "response_of = map_sum id (fst \<circ> snd)"

text \<open>The text of a header after its first space character, and the text of a string
  up to its first space character (all of it when it has none).\<close>

definition after_first_space :: "string \<Rightarrow> string" where
  "after_first_space h = tl (dropWhile (\<lambda>c. c \<noteq> CHR '' '') h)"

definition up_to_space :: "string \<Rightarrow> string" where
  "up_to_space s = takeWhile (\<lambda>c. c \<noteq> CHR '' '') s"

text \<open>
  The specification's wording, not the code's: a header "split on whitespace" into
  tokens, a token being a maximal run of characters that are not whitespace (space, tab,
  line feed, vertical tab, form feed, carriage return). These definitions are used only
  to compare the specification's reading with \<open>split_on\<close>.
\<close>

definition is_whitespace :: "char \<Rightarrow> bool" where
  "is_whitespace c =
     (c = CHR '' '' \<or> c = CHR 0x09 \<or> c = CHR 0x0A \<or> c = CHR 0x0B \<or> c = CHR 0x0C \<or> c = CHR 0x0D)"

fun spec_tokens_from :: "string \<Rightarrow> string \<Rightarrow> string list" where
  "spec_tokens_from cur [] = (if cur = [] then [] else [cur])"
| "spec_tokens_from cur (c # cs) =
     (if is_whitespace c
      then (if cur = [] then spec_tokens_from [] cs else cur # spec_tokens_from [] cs)
      else spec_tokens_from (cur @ [c]) cs)"

definition spec_whitespace_tokens :: "string \<Rightarrow> string list" where
  "spec_whitespace_tokens s = spec_tokens_from [] s"

definition spec_two_token_shape :: "string \<Rightarrow> bool" where
  "spec_two_token_shape h = (length (spec_whitespace_tokens h) = 2)"

definition spec_second_token :: "string \<Rightarrow> string option" where
  "spec_second_token h = array_at (spec_whitespace_tokens h) 1"

section \<open>Properties\<close>

subsection \<open>What \<open>split\<close> returns\<close>

lemma split_from_no_sep:
  "sep \<notin> set s \<Longrightarrow> split_from sep cur s = [cur @ s]"
  by (induction s arbitrary: cur) auto

lemma split_from_at_sep:
  "sep \<notin> set a \<Longrightarrow> split_from sep cur (a @ sep # r) = (cur @ a) # split_from sep [] r"
  by (induction a arbitrary: cur) auto

lemma split_from_not_Nil:
  "split_from sep cur s \<noteq> []"
  by (induction s arbitrary: cur) auto

lemma hd_split_from:
  "hd (split_from sep cur s) = cur @ takeWhile (\<lambda>c. c \<noteq> sep) s"
  by (induction s arbitrary: cur) auto

lemma cut_at_first_sep:
  assumes "sep \<in> set s"
  shows "s = takeWhile (\<lambda>c. c \<noteq> sep) s @ sep # tl (dropWhile (\<lambda>c. c \<noteq> sep) s)"
proof -
  from assms have "dropWhile (\<lambda>c. c \<noteq> sep) s \<noteq> []"
    by (simp add: dropWhile_eq_Nil_conv)
  moreover from this have "hd (dropWhile (\<lambda>c. c \<noteq> sep) s) = sep"
    using hd_dropWhile [of "\<lambda>c. c \<noteq> sep" s] by simp
  ultimately have "dropWhile (\<lambda>c. c \<noteq> sep) s = sep # tl (dropWhile (\<lambda>c. c \<noteq> sep) s)"
    by (cases "dropWhile (\<lambda>c. c \<noteq> sep) s") auto
  then show ?thesis
    using takeWhile_dropWhile_id [of "\<lambda>c. c \<noteq> sep" s] by simp
qed

text \<open>The second piece is absent exactly when the string has no separator; otherwise
  it is the text between the first separator and the next one (or the end).\<close>

lemma second_piece:
  "array_at (split_on sep s) 1 =
     (if sep \<in> set s
      then Some (takeWhile (\<lambda>c. c \<noteq> sep) (tl (dropWhile (\<lambda>c. c \<noteq> sep) s)))
      else None)"
proof (cases "sep \<in> set s")
  case False
  then show ?thesis
    by (simp add: split_on_def split_from_no_sep array_at_def)
next
  case True
  define a where "a = takeWhile (\<lambda>c. c \<noteq> sep) s"
  define r where "r = tl (dropWhile (\<lambda>c. c \<noteq> sep) s)"
  have s: "s = a @ sep # r"
    unfolding a_def r_def using True by (rule cut_at_first_sep)
  have "sep \<notin> set a"
    unfolding a_def by (auto dest: set_takeWhileD)
  then have "split_on sep s = a # split_from sep [] r"
    unfolding split_on_def by (subst s) (simp add: split_from_at_sep)
  moreover obtain ps where "split_from sep [] r = takeWhile (\<lambda>c. c \<noteq> sep) r # ps"
    using split_from_not_Nil [of sep "[]" r] hd_split_from [of sep "[]" r]
    by (cases "split_from sep [] r") auto
  ultimately have "array_at (split_on sep s) 1 = Some (takeWhile (\<lambda>c. c \<noteq> sep) r)"
    by (simp add: array_at_def)
  with True show ?thesis
    by (simp add: r_def)
qed

subsection \<open>The branches of the middleware\<close>

lemma gate_absent:
  "falsy (authorization (headers req)) \<Longrightarrow>
     authMiddleware env req res = Inr (req, missing_header res, Ended)"
  by (simp add: authMiddleware_def missing_header_def status_def send_json_def error_object_def)

lemma gate_present:
  assumes "authorization (headers req) = Some h" and "h \<noteq> []"
  shows "authMiddleware env req res =
           (case array_at (split_on (CHR '' '') h) 1 of
              None \<Rightarrow> Inr (req, malformed_header res, Ended)
            | Some t \<Rightarrow>
                if t = [] then Inr (req, malformed_header res, Ended)
                else if API_KEY env = Some t then Inr (req, res, Next)
                else Inr (req, invalid_token res, Ended))"
  using assms
  by (auto simp: authMiddleware_def malformed_header_def invalid_token_def status_def
        send_json_def error_object_def split: option.splits)

lemma rejections_differ:
  "missing_header res \<noteq> malformed_header res"
  "missing_header res \<noteq> invalid_token res"
  "malformed_header res \<noteq> invalid_token res"
proof -
  have "body (missing_header res) \<noteq> body (malformed_header res)"
    by (simp add: missing_header_def malformed_header_def)
  then show "missing_header res \<noteq> malformed_header res"
    by auto
  have "statusCode (missing_header res) \<noteq> statusCode (invalid_token res)"
    by (simp add: missing_header_def invalid_token_def)
  then show "missing_header res \<noteq> invalid_token res"
    by auto
  have "statusCode (malformed_header res) \<noteq> statusCode (invalid_token res)"
    by (simp add: malformed_header_def invalid_token_def)
  then show "malformed_header res \<noteq> invalid_token res"
    by auto
qed


lemma gate_second_piece:
  assumes "authorization (headers req) = Some h" and "h \<noteq> []"
  shows "authMiddleware env req res =
           (if CHR '' '' \<notin> set h \<or> up_to_space (after_first_space h) = []
            then Inr (req, malformed_header res, Ended)
            else if API_KEY env = Some (up_to_space (after_first_space h))
            then Inr (req, res, Next)
            else Inr (req, invalid_token res, Ended))"
  unfolding gate_present [OF assms] second_piece up_to_space_def after_first_space_def
  by simp

text \<open>Read on the header itself: when the header is a first piece, a space, a second
  piece and then nothing or a space with more text, the two functions give the second
  piece.\<close>

lemma between_spaces:
  assumes "h = a @ CHR '' '' # t @ rest"
    and "CHR '' '' \<notin> set a" and "CHR '' '' \<notin> set t"
    and "rest = [] \<or> hd rest = CHR '' ''"
  shows "up_to_space (after_first_space h) = t"
proof -
  have "dropWhile (\<lambda>c. c \<noteq> CHR '' '') h = CHR '' '' # t @ rest"
    using assms(1,2) by (auto simp: dropWhile_append3)
  then have "after_first_space h = t @ rest"
    by (simp add: after_first_space_def)
  moreover have "takeWhile (\<lambda>c. c \<noteq> CHR '' '') rest = []"
    using assms(4) by (cases rest) auto
  moreover have "takeWhile (\<lambda>c. c \<noteq> CHR '' '') (t @ rest) =
      t @ takeWhile (\<lambda>c. c \<noteq> CHR '' '') rest"
    using assms(3) by (intro takeWhile_append2) auto
  ultimately show ?thesis
    by (simp add: up_to_space_def)
qed

subsection \<open>Malformed headers\<close>

text \<open>
  Claim C1, as the code has it: for a present header, the middleware answers with the
  malformed-header rejection exactly when the header is not empty and either has no space
  character or has nothing, or a further space, directly after its first space. The
  number of pieces beyond the second plays no part.
\<close>

theorem malformed_exactly_when:
  assumes "authorization (headers req) = Some h"
  shows "(authMiddleware env req res = Inr (req, malformed_header res, Ended)) =
           (h \<noteq> [] \<and> (CHR '' '' \<notin> set h \<or> up_to_space (after_first_space h) = []))"
proof (cases "h = []")
  case True
  with assms have "authMiddleware env req res = Inr (req, missing_header res, Ended)"
    by (simp add: gate_absent)
  with True show ?thesis
    by (simp add: rejections_differ)
next
  case False
  have "invalid_token res \<noteq> malformed_header res"
    using rejections_differ(3) [of res] by simp
  with False show ?thesis
    by (simp add: gate_second_piece [OF assms False])
qed

theorem malformed_exactly_when_witness:
  "authorization (headers \<lparr>headers = \<lparr>authorization = Some ''Bearer''\<rparr>\<rparr>) = Some ''Bearer'' \<and>
   authMiddleware \<lparr>API_KEY = Some ''Bearer''\<rparr> \<lparr>headers = \<lparr>authorization = Some ''Bearer''\<rparr>\<rparr>
       \<lparr>statusCode = 200, body = None\<rparr>
     = Inr (\<lparr>headers = \<lparr>authorization = Some ''Bearer''\<rparr>\<rparr>,
            malformed_header \<lparr>statusCode = 200, body = None\<rparr>, Ended)"
proof -
  have h: "authorization (headers \<lparr>headers = \<lparr>authorization = Some ''Bearer''\<rparr>\<rparr>) = Some ''Bearer''"
    by simp
  show ?thesis
    using h malformed_exactly_when [OF h, of "\<lparr>API_KEY = Some ''Bearer''\<rparr>"
        "\<lparr>statusCode = 200, body = None\<rparr>"]
    by simp
qed

text \<open>
  Claim C1 as stated fails: a header of three tokens does not have the two-token shape,
  yet the middleware lets it through when its second token is the secret, and answers with
  the invalid-token rejection when it is not.
\<close>

theorem three_token_header_not_malformed:
  "\<not> spec_two_token_shape ''Bearer s3cr3t extra'' \<and>
   authMiddleware \<lparr>API_KEY = Some ''s3cr3t''\<rparr>
       \<lparr>headers = \<lparr>authorization = Some ''Bearer s3cr3t extra''\<rparr>\<rparr>
       \<lparr>statusCode = 200, body = None\<rparr>
     = Inr (\<lparr>headers = \<lparr>authorization = Some ''Bearer s3cr3t extra''\<rparr>\<rparr>,
            \<lparr>statusCode = 200, body = None\<rparr>, Next) \<and>
   \<not> spec_two_token_shape ''Bearer wrong extra'' \<and>
   authMiddleware \<lparr>API_KEY = Some ''s3cr3t''\<rparr>
       \<lparr>headers = \<lparr>authorization = Some ''Bearer wrong extra''\<rparr>\<rparr>
       \<lparr>statusCode = 200, body = None\<rparr>
     = Inr (\<lparr>headers = \<lparr>authorization = Some ''Bearer wrong extra''\<rparr>\<rparr>,
            invalid_token \<lparr>statusCode = 200, body = None\<rparr>, Ended)"
  by (simp add: spec_two_token_shape_def spec_whitespace_tokens_def is_whitespace_def
      authMiddleware_def split_on_def array_at_def invalid_token_def status_def send_json_def
      error_object_def)


subsection \<open>The token that is compared\<close>

text \<open>
  Claim C2, as the code has it: for a present header that is not empty, the second piece
  of the header split at each space character is absent exactly when the header has no
  space, and is otherwise the text between the first space and the next one (or the end
  of the header). When that piece is absent or empty the middleware answers with the
  malformed-header rejection, and otherwise that piece is what it compares with the
  configured secret.
\<close>

theorem token_is_second_space_piece:
  assumes "authorization (headers req) = Some h" and "h \<noteq> []"
  shows "array_at (split_on (CHR '' '') h) 1 =
           (if CHR '' '' \<in> set h then Some (up_to_space (after_first_space h)) else None) \<and>
         authMiddleware env req res =
           (if CHR '' '' \<notin> set h \<or> up_to_space (after_first_space h) = []
            then Inr (req, malformed_header res, Ended)
            else if API_KEY env = Some (up_to_space (after_first_space h))
            then Inr (req, res, Next)
            else Inr (req, invalid_token res, Ended))"
proof
  show "array_at (split_on (CHR '' '') h) 1 =
          (if CHR '' '' \<in> set h then Some (up_to_space (after_first_space h)) else None)"
    unfolding second_piece up_to_space_def after_first_space_def ..
  show "authMiddleware env req res =
          (if CHR '' '' \<notin> set h \<or> up_to_space (after_first_space h) = []
           then Inr (req, malformed_header res, Ended)
           else if API_KEY env = Some (up_to_space (after_first_space h))
           then Inr (req, res, Next)
           else Inr (req, invalid_token res, Ended))"
    using assms by (rule gate_second_piece)
qed

theorem token_is_second_space_piece_witness:
  "authorization (headers \<lparr>headers = \<lparr>authorization = Some ''Bearer  s3cr3t''\<rparr>\<rparr>)
     = Some ''Bearer  s3cr3t'' \<and>
   ''Bearer  s3cr3t'' \<noteq> [] \<and>
   array_at (split_on (CHR '' '') ''Bearer  s3cr3t'') 1 = Some [] \<and>
   authMiddleware \<lparr>API_KEY = Some ''s3cr3t''\<rparr>
       \<lparr>headers = \<lparr>authorization = Some ''Bearer  s3cr3t''\<rparr>\<rparr>
       \<lparr>statusCode = 200, body = None\<rparr>
     = Inr (\<lparr>headers = \<lparr>authorization = Some ''Bearer  s3cr3t''\<rparr>\<rparr>,
            malformed_header \<lparr>statusCode = 200, body = None\<rparr>, Ended)"
proof -
  have h: "authorization (headers \<lparr>headers = \<lparr>authorization = Some ''Bearer  s3cr3t''\<rparr>\<rparr>)
      = Some ''Bearer  s3cr3t''"
    by simp
  have n: "''Bearer  s3cr3t'' \<noteq> []"
    by simp
  have t: "up_to_space (after_first_space ''Bearer  s3cr3t'') = []"
    by (simp add: up_to_space_def after_first_space_def)
  show ?thesis
    using h n token_is_second_space_piece [OF h n, of "\<lparr>API_KEY = Some ''s3cr3t''\<rparr>"
        "\<lparr>statusCode = 200, body = None\<rparr>"]
    by (simp add: t)
qed

text \<open>
  Claim C2 as stated fails twice. A header whose scheme and token are separated by a tab
  has, split on whitespace, the secret as its second token, yet the middleware answers
  with the malformed-header rejection: it splits at the space character only. And the
  empty header is present and has no second token, yet the answer is the missing-header
  rejection, which is a different response.
\<close>

theorem tab_separated_or_empty_header:
  "spec_second_token (''Bearer'' @ [CHR 0x09] @ ''s3cr3t'') = Some ''s3cr3t'' \<and>
   authMiddleware \<lparr>API_KEY = Some ''s3cr3t''\<rparr>
       \<lparr>headers = \<lparr>authorization = Some (''Bearer'' @ [CHR 0x09] @ ''s3cr3t'')\<rparr>\<rparr>
       \<lparr>statusCode = 200, body = None\<rparr>
     = Inr (\<lparr>headers = \<lparr>authorization = Some (''Bearer'' @ [CHR 0x09] @ ''s3cr3t'')\<rparr>\<rparr>,
            malformed_header \<lparr>statusCode = 200, body = None\<rparr>, Ended) \<and>
   spec_second_token [] = None \<and>
   authMiddleware \<lparr>API_KEY = Some ''s3cr3t''\<rparr>
       \<lparr>headers = \<lparr>authorization = Some []\<rparr>\<rparr>
       \<lparr>statusCode = 200, body = None\<rparr>
     = Inr (\<lparr>headers = \<lparr>authorization = Some []\<rparr>\<rparr>,
            missing_header \<lparr>statusCode = 200, body = None\<rparr>, Ended) \<and>
   missing_header \<lparr>statusCode = 200, body = None\<rparr>
     \<noteq> malformed_header \<lparr>statusCode = 200, body = None\<rparr>"
  by (simp add: spec_second_token_def spec_whitespace_tokens_def is_whitespace_def
      authMiddleware_def split_on_def array_at_def malformed_header_def missing_header_def
      status_def send_json_def error_object_def)

subsection \<open>Allowing and forbidding\<close>

lemma extracted_header_not_empty:
  "array_at (split_on sep h) 1 = Some t \<Longrightarrow> h \<noteq> []"
  by (auto simp: split_on_def array_at_def)

text \<open>
  Claim C3: when the middleware extracts a token from the header (the second piece of the
  split exists and is not empty) and the token equals the configured secret, the
  middleware calls \<open>next()\<close> and leaves the request and the response as they were, so
  the downstream handler runs on the unchanged request.
\<close>

theorem matching_token_allowed:
  assumes "authorization (headers req) = Some h"
    and "array_at (split_on (CHR '' '') h) 1 = Some t" and "t \<noteq> []"
    and "API_KEY env = Some t"
  shows "authMiddleware env req res = Inr (req, res, Next) \<and>
         gated handler env req res = Inr (handler req res)"
proof -
  have "h \<noteq> []"
    using assms(2) by (rule extracted_header_not_empty)
  then have "authMiddleware env req res = Inr (req, res, Next)"
    using assms by (simp add: gate_present)
  then show ?thesis
    by (simp add: gated_def)
qed

theorem matching_token_allowed_witness:
  "authorization (headers \<lparr>headers = \<lparr>authorization = Some ''Bearer s3cr3t''\<rparr>\<rparr>)
     = Some ''Bearer s3cr3t'' \<and>
   array_at (split_on (CHR '' '') ''Bearer s3cr3t'') 1 = Some ''s3cr3t'' \<and>
   ''s3cr3t'' \<noteq> [] \<and>
   API_KEY \<lparr>API_KEY = Some ''s3cr3t''\<rparr> = Some ''s3cr3t'' \<and>
   authMiddleware \<lparr>API_KEY = Some ''s3cr3t''\<rparr>
       \<lparr>headers = \<lparr>authorization = Some ''Bearer s3cr3t''\<rparr>\<rparr>
       \<lparr>statusCode = 200, body = None\<rparr>
     = Inr (\<lparr>headers = \<lparr>authorization = Some ''Bearer s3cr3t''\<rparr>\<rparr>,
            \<lparr>statusCode = 200, body = None\<rparr>, Next) \<and>
   gated (\<lambda>q r. (q, send_json (JString ''bundles'') r)) \<lparr>API_KEY = Some ''s3cr3t''\<rparr>
       \<lparr>headers = \<lparr>authorization = Some ''Bearer s3cr3t''\<rparr>\<rparr>
       \<lparr>statusCode = 200, body = None\<rparr>
     = Inr (\<lparr>headers = \<lparr>authorization = Some ''Bearer s3cr3t''\<rparr>\<rparr>,
            \<lparr>statusCode = 200, body = Some (JString ''bundles'')\<rparr>)"
proof -
  have h: "authorization (headers \<lparr>headers = \<lparr>authorization = Some ''Bearer s3cr3t''\<rparr>\<rparr>)
      = Some ''Bearer s3cr3t''"
    by simp
  have p: "array_at (split_on (CHR '' '') ''Bearer s3cr3t'') 1 = Some ''s3cr3t''"
    by (simp add: split_on_def array_at_def)
  have n: "''s3cr3t'' \<noteq> []"
    by simp
  have k: "API_KEY \<lparr>API_KEY = Some ''s3cr3t''\<rparr> = Some ''s3cr3t''"
    by simp
  show ?thesis
    using h p n k
      matching_token_allowed [OF h p n k, of "\<lparr>statusCode = 200, body = None\<rparr>"
        "\<lambda>q r. (q, send_json (JString ''bundles'') r)"]
    by (simp add: send_json_def)
qed

text \<open>
  Claim C4: when the middleware extracts a token from the header and the token is not the
  configured secret (which includes no secret being configured), the middleware answers
  with the invalid-token rejection, status 403, and the downstream handler does not run.
\<close>

theorem other_token_forbidden:
  assumes "authorization (headers req) = Some h"
    and "array_at (split_on (CHR '' '') h) 1 = Some t" and "t \<noteq> []"
    and "API_KEY env \<noteq> Some t"
  shows "authMiddleware env req res = Inr (req, invalid_token res, Ended) \<and>
         statusCode (invalid_token res) = 403 \<and>
         gated handler env req res = Inr (req, invalid_token res)"
proof -
  have "h \<noteq> []"
    using assms(2) by (rule extracted_header_not_empty)
  then have "authMiddleware env req res = Inr (req, invalid_token res, Ended)"
    using assms by (simp add: gate_present)
  then show ?thesis
    by (simp add: gated_def invalid_token_def)
qed

theorem other_token_forbidden_witness:
  "authorization (headers \<lparr>headers = \<lparr>authorization = Some ''Bearer wrong''\<rparr>\<rparr>)
     = Some ''Bearer wrong'' \<and>
   array_at (split_on (CHR '' '') ''Bearer wrong'') 1 = Some ''wrong'' \<and>
   ''wrong'' \<noteq> [] \<and>
   API_KEY \<lparr>API_KEY = Some ''s3cr3t''\<rparr> \<noteq> Some ''wrong'' \<and>
   authMiddleware \<lparr>API_KEY = Some ''s3cr3t''\<rparr>
       \<lparr>headers = \<lparr>authorization = Some ''Bearer wrong''\<rparr>\<rparr>
       \<lparr>statusCode = 200, body = None\<rparr>
     = Inr (\<lparr>headers = \<lparr>authorization = Some ''Bearer wrong''\<rparr>\<rparr>,
            \<lparr>statusCode = 403, body = Some (JObject [(''error'', JString ''Invalid API key'')])\<rparr>,
            Ended)"
proof -
  have h: "authorization (headers \<lparr>headers = \<lparr>authorization = Some ''Bearer wrong''\<rparr>\<rparr>)
      = Some ''Bearer wrong''"
    by simp
  have p: "array_at (split_on (CHR '' '') ''Bearer wrong'') 1 = Some ''wrong''"
    by (simp add: split_on_def array_at_def)
  have n: "''wrong'' \<noteq> []"
    by simp
  have k: "API_KEY \<lparr>API_KEY = Some ''s3cr3t''\<rparr> \<noteq> Some ''wrong''"
    by simp
  show ?thesis
    using h p n k
      other_token_forbidden [OF h p n k, of "\<lparr>statusCode = 200, body = None\<rparr>" Pair]
    by (simp add: invalid_token_def)
qed


subsection \<open>Absent and empty headers\<close>

text \<open>
  Claim C5: when the request has no Authorization header, the middleware answers with the
  missing-header rejection, status 401, whatever the environment holds: the configured
  secret plays no part in the run, and the downstream handler does not run.
\<close>

theorem absent_header_unauthenticated:
  assumes "authorization (headers req) = None"
  shows "authMiddleware env req res = Inr (req, missing_header res, Ended) \<and>
         statusCode (missing_header res) = 401 \<and>
         authMiddleware env' req res = authMiddleware env req res \<and>
         gated handler env req res = Inr (req, missing_header res)"
proof -
  have "authMiddleware env req res = Inr (req, missing_header res, Ended)"
    and "authMiddleware env' req res = Inr (req, missing_header res, Ended)"
    using assms by (simp_all add: gate_absent)
  then show ?thesis
    by (simp add: gated_def missing_header_def)
qed

theorem absent_header_unauthenticated_witness:
  "authorization (headers \<lparr>headers = \<lparr>authorization = None\<rparr>\<rparr>) = None \<and>
   authMiddleware \<lparr>API_KEY = Some ''s3cr3t''\<rparr> \<lparr>headers = \<lparr>authorization = None\<rparr>\<rparr>
       \<lparr>statusCode = 200, body = None\<rparr>
     = Inr (\<lparr>headers = \<lparr>authorization = None\<rparr>\<rparr>,
            \<lparr>statusCode = 401,
             body = Some (JObject [(''error'', JString ''Missing authorization header'')])\<rparr>,
            Ended) \<and>
   authMiddleware \<lparr>API_KEY = None\<rparr> \<lparr>headers = \<lparr>authorization = None\<rparr>\<rparr>
       \<lparr>statusCode = 200, body = None\<rparr>
     = authMiddleware \<lparr>API_KEY = Some ''s3cr3t''\<rparr> \<lparr>headers = \<lparr>authorization = None\<rparr>\<rparr>
         \<lparr>statusCode = 200, body = None\<rparr>"
proof -
  have h: "authorization (headers \<lparr>headers = \<lparr>authorization = None\<rparr>\<rparr>) = None"
    by simp
  show ?thesis
    using h absent_header_unauthenticated [OF h, of "\<lparr>API_KEY = Some ''s3cr3t''\<rparr>"
        "\<lparr>statusCode = 200, body = None\<rparr>" "\<lparr>API_KEY = None\<rparr>" Pair]
    by (simp add: missing_header_def)
qed

text \<open>
  Claim C10: a header that is present but is the empty string gets the missing-header
  rejection, status 401, and not the malformed-header rejection, because the presence
  test \<open>!authHeader\<close> holds for the empty string.
\<close>

theorem empty_header_is_missing:
  assumes "authorization (headers req) = Some []"
  shows "falsy (authorization (headers req)) \<and>
         authMiddleware env req res = Inr (req, missing_header res, Ended) \<and>
         statusCode (missing_header res) = 401 \<and>
         authMiddleware env req res \<noteq> Inr (req, malformed_header res, Ended)"
proof -
  have f: "falsy (authorization (headers req))"
    using assms by simp
  then have "authMiddleware env req res = Inr (req, missing_header res, Ended)"
    by (rule gate_absent)
  with f show ?thesis
    by (simp add: rejections_differ) (simp add: missing_header_def)
qed

theorem empty_header_is_missing_witness:
  "authorization (headers \<lparr>headers = \<lparr>authorization = Some []\<rparr>\<rparr>) = Some [] \<and>
   authMiddleware \<lparr>API_KEY = Some ''s3cr3t''\<rparr> \<lparr>headers = \<lparr>authorization = Some []\<rparr>\<rparr>
       \<lparr>statusCode = 200, body = None\<rparr>
     = Inr (\<lparr>headers = \<lparr>authorization = Some []\<rparr>\<rparr>,
            \<lparr>statusCode = 401,
             body = Some (JObject [(''error'', JString ''Missing authorization header'')])\<rparr>,
            Ended)"
proof -
  have h: "authorization (headers \<lparr>headers = \<lparr>authorization = Some []\<rparr>\<rparr>) = Some []"
    by simp
  show ?thesis
    using h empty_header_is_missing [OF h, of "\<lparr>API_KEY = Some ''s3cr3t''\<rparr>"
        "\<lparr>statusCode = 200, body = None\<rparr>"]
    by (simp add: missing_header_def)
qed

subsection \<open>The outcomes of a run\<close>

lemma gate_cases:
  "authMiddleware env req res = Inr (req, missing_header res, Ended) \<or>
   authMiddleware env req res = Inr (req, malformed_header res, Ended) \<or>
   authMiddleware env req res = Inr (req, invalid_token res, Ended) \<or>
   authMiddleware env req res = Inr (req, res, Next)"
proof (cases "authorization (headers req)")
  case None
  then show ?thesis
    by (simp add: gate_absent)
next
  case (Some h)
  show ?thesis
  proof (cases "h = []")
    case True
    with Some show ?thesis
      by (simp add: gate_absent)
  next
    case False
    show ?thesis
      unfolding gate_present [OF Some False] by (simp split: option.split)
  qed
qed

text \<open>
  Claim C6: every run of the middleware returns (it does not throw) and ends in one of
  four results that differ from one another: the missing-header rejection, the
  malformed-header rejection, the invalid-token rejection, or the call of \<open>next()\<close>
  with the request and response untouched. Each rejection sets a status code (401, 401,
  403) and a JSON body with an \<open>error\<close> field. The middleware decides once: after a
  rejection the exchange has the rejection as its response and the downstream handler is
  not applied, whichever handler it is; after \<open>next()\<close> the handler runs once on the
  unchanged request.
\<close>

theorem four_outcomes:
  "authMiddleware env req res \<in>
     {Inr (req, missing_header res, Ended), Inr (req, malformed_header res, Ended),
      Inr (req, invalid_token res, Ended), Inr (req, res, Next)} \<and>
   distinct [Inr (req, missing_header res, Ended), Inr (req, malformed_header res, Ended),
      Inr (req, invalid_token res, Ended), Inr (req, res, Next) :: error + _] \<and>
   statusCode (missing_header res) = 401 \<and>
   body (missing_header res) = Some (JObject [(''error'', JString ''Missing authorization header'')]) \<and>
   statusCode (malformed_header res) = 401 \<and>
   body (malformed_header res)
     = Some (JObject [(''error'', JString ''Invalid authorization header format'')]) \<and>
   statusCode (invalid_token res) = 403 \<and>
   body (invalid_token res) = Some (JObject [(''error'', JString ''Invalid API key'')]) \<and>
   (\<forall>r. authMiddleware env req res = Inr (req, r, Ended) \<longrightarrow>
      gated handler env req res = Inr (req, r) \<and>
      gated handler' env req res = gated handler env req res) \<and>
   (authMiddleware env req res = Inr (req, res, Next) \<longrightarrow>
      gated handler env req res = Inr (handler req res))"
proof (intro conjI)
  show "authMiddleware env req res \<in>
     {Inr (req, missing_header res, Ended), Inr (req, malformed_header res, Ended),
      Inr (req, invalid_token res, Ended), Inr (req, res, Next)}"
    using gate_cases [of env req res] by blast
  show "distinct [Inr (req, missing_header res, Ended), Inr (req, malformed_header res, Ended),
      Inr (req, invalid_token res, Ended), Inr (req, res, Next) :: error + _]"
    by (simp add: rejections_differ)
  show "\<forall>r. authMiddleware env req res = Inr (req, r, Ended) \<longrightarrow>
      gated handler env req res = Inr (req, r) \<and>
      gated handler' env req res = gated handler env req res"
    by (simp add: gated_def)
  show "authMiddleware env req res = Inr (req, res, Next) \<longrightarrow>
      gated handler env req res = Inr (handler req res)"
    by (simp add: gated_def)
qed (simp_all add: missing_header_def malformed_header_def invalid_token_def)

theorem four_outcomes_witness:
  "authMiddleware \<lparr>API_KEY = Some ''s3cr3t''\<rparr>
       \<lparr>headers = \<lparr>authorization = Some ''Basic dXNlcjpwdw==''\<rparr>\<rparr>
       \<lparr>statusCode = 200, body = None\<rparr>
     = Inr (\<lparr>headers = \<lparr>authorization = Some ''Basic dXNlcjpwdw==''\<rparr>\<rparr>,
            invalid_token \<lparr>statusCode = 200, body = None\<rparr>, Ended) \<and>
   gated (\<lambda>q r. (q, send_json (JString ''bundles'') r)) \<lparr>API_KEY = Some ''s3cr3t''\<rparr>
       \<lparr>headers = \<lparr>authorization = Some ''Basic dXNlcjpwdw==''\<rparr>\<rparr>
       \<lparr>statusCode = 200, body = None\<rparr>
     = Inr (\<lparr>headers = \<lparr>authorization = Some ''Basic dXNlcjpwdw==''\<rparr>\<rparr>,
            invalid_token \<lparr>statusCode = 200, body = None\<rparr>)"
proof -
  have g: "authMiddleware \<lparr>API_KEY = Some ''s3cr3t''\<rparr>
       \<lparr>headers = \<lparr>authorization = Some ''Basic dXNlcjpwdw==''\<rparr>\<rparr>
       \<lparr>statusCode = 200, body = None\<rparr>
     = Inr (\<lparr>headers = \<lparr>authorization = Some ''Basic dXNlcjpwdw==''\<rparr>\<rparr>,
            invalid_token \<lparr>statusCode = 200, body = None\<rparr>, Ended)"
    by (simp add: authMiddleware_def split_on_def array_at_def invalid_token_def status_def
        send_json_def error_object_def)
  show ?thesis
    using g four_outcomes [of "\<lparr>API_KEY = Some ''s3cr3t''\<rparr>"
        "\<lparr>headers = \<lparr>authorization = Some ''Basic dXNlcjpwdw==''\<rparr>\<rparr>"
        "\<lparr>statusCode = 200, body = None\<rparr>"
        "\<lambda>q r. (q, send_json (JString ''bundles'') r)" Pair]
    by simp
qed


text \<open>
  Claim C7: with the secret \<open>s3cr3t\<close> configured, the header \<open>Bearer s3cr3t\<close> is
  allowed, the header \<open>Bearer wrong\<close> gets the invalid-token rejection, a request
  without the header gets the missing-header rejection, and the header \<open>s3cr3t\<close> with
  no scheme gets the malformed-header rejection.
\<close>

theorem scenario_s3cr3t:
  "authMiddleware \<lparr>API_KEY = Some ''s3cr3t''\<rparr>
       \<lparr>headers = \<lparr>authorization = Some ''Bearer s3cr3t''\<rparr>\<rparr> res
     = Inr (\<lparr>headers = \<lparr>authorization = Some ''Bearer s3cr3t''\<rparr>\<rparr>, res, Next) \<and>
   authMiddleware \<lparr>API_KEY = Some ''s3cr3t''\<rparr>
       \<lparr>headers = \<lparr>authorization = Some ''Bearer wrong''\<rparr>\<rparr> res
     = Inr (\<lparr>headers = \<lparr>authorization = Some ''Bearer wrong''\<rparr>\<rparr>, invalid_token res, Ended) \<and>
   authMiddleware \<lparr>API_KEY = Some ''s3cr3t''\<rparr>
       \<lparr>headers = \<lparr>authorization = None\<rparr>\<rparr> res
     = Inr (\<lparr>headers = \<lparr>authorization = None\<rparr>\<rparr>, missing_header res, Ended) \<and>
   authMiddleware \<lparr>API_KEY = Some ''s3cr3t''\<rparr>
       \<lparr>headers = \<lparr>authorization = Some ''s3cr3t''\<rparr>\<rparr> res
     = Inr (\<lparr>headers = \<lparr>authorization = Some ''s3cr3t''\<rparr>\<rparr>, malformed_header res, Ended)"
  by (simp add: authMiddleware_def split_on_def array_at_def invalid_token_def
      missing_header_def malformed_header_def status_def send_json_def error_object_def)

subsection \<open>What the outcome depends on\<close>

text \<open>
  Claim C8: the middleware is a function of the Authorization header, the configured
  secret and the response object it writes to. Two runs whose requests carry the same
  Authorization header value (or both none) under environments with the same
  \<open>API_KEY\<close> decide alike, whatever else the requests, the environments and the
  response objects hold; on the same response object they leave the same response, and a
  rejection writes the same status code and body on any response object. The run returns
  nothing but the request, the response and the decision: it keeps no state of its own.
\<close>

theorem gate_deterministic:
  assumes "authorization (headers req) = authorization (headers req')"
    and "API_KEY env = API_KEY env'"
  shows "control_of (authMiddleware env req res) = control_of (authMiddleware env' req' res') \<and>
         response_of (authMiddleware env req res) = response_of (authMiddleware env' req' res) \<and>
         (control_of (authMiddleware env req res) = Inr Ended \<longrightarrow>
            map_sum id (\<lambda>r. (statusCode r, body r)) (response_of (authMiddleware env req res))
              = map_sum id (\<lambda>r. (statusCode r, body r))
                  (response_of (authMiddleware env' req' res')))"
proof (cases "falsy (authorization (headers req))")
  case True
  then have "falsy (authorization (headers req'))"
    using assms(1) by simp
  with True show ?thesis
    by (simp add: gate_absent control_of_def response_of_def missing_header_def)
next
  case False
  then obtain h where h: "authorization (headers req) = Some h" and n: "h \<noteq> []"
    by (cases "authorization (headers req)") auto
  from h assms(1) have h': "authorization (headers req') = Some h"
    by simp
  show ?thesis
    unfolding gate_present [OF h n] gate_present [OF h' n]
    using assms(2)
    by (simp add: control_of_def response_of_def malformed_header_def invalid_token_def
        split: option.split)
qed

theorem gate_deterministic_witness:
  "authorization (headers \<lparr>headers = \<lparr>authorization = Some ''Bearer s3cr3t''\<rparr>\<rparr>)
     = authorization (headers \<lparr>headers = \<lparr>authorization = Some ''Bearer s3cr3t'',
           \<dots> = ''curl/8.5.0''\<rparr>, \<dots> = ''POST''\<rparr>) \<and>
   API_KEY \<lparr>API_KEY = Some ''s3cr3t''\<rparr> = API_KEY \<lparr>API_KEY = Some ''s3cr3t'', \<dots> = ''3000''\<rparr> \<and>
   control_of (authMiddleware \<lparr>API_KEY = Some ''s3cr3t''\<rparr>
       \<lparr>headers = \<lparr>authorization = Some ''Bearer s3cr3t''\<rparr>\<rparr>
       \<lparr>statusCode = 200, body = None\<rparr>)
     = control_of (authMiddleware \<lparr>API_KEY = Some ''s3cr3t'', \<dots> = ''3000''\<rparr>
         \<lparr>headers = \<lparr>authorization = Some ''Bearer s3cr3t'', \<dots> = ''curl/8.5.0''\<rparr>,
          \<dots> = ''POST''\<rparr>
         \<lparr>statusCode = 404, body = Some (JString ''x'')\<rparr>) \<and>
   control_of (authMiddleware \<lparr>API_KEY = Some ''s3cr3t''\<rparr>
       \<lparr>headers = \<lparr>authorization = Some ''Bearer s3cr3t''\<rparr>\<rparr>
       \<lparr>statusCode = 200, body = None\<rparr>) = Inr Next"
proof -
  have h: "authorization (headers \<lparr>headers = \<lparr>authorization = Some ''Bearer s3cr3t''\<rparr>\<rparr>)
     = authorization (headers \<lparr>headers = \<lparr>authorization = Some ''Bearer s3cr3t'',
           \<dots> = ''curl/8.5.0''\<rparr>, \<dots> = ''POST''\<rparr>)"
    by simp
  have k: "API_KEY \<lparr>API_KEY = Some ''s3cr3t''\<rparr>
      = API_KEY \<lparr>API_KEY = Some ''s3cr3t'', \<dots> = ''3000''\<rparr>"
    by simp
  have c: "control_of (authMiddleware \<lparr>API_KEY = Some ''s3cr3t''\<rparr>
       \<lparr>headers = \<lparr>authorization = Some ''Bearer s3cr3t''\<rparr>\<rparr>
       \<lparr>statusCode = 200, body = None\<rparr>) = Inr Next"
    by (simp add: authMiddleware_def split_on_def array_at_def control_of_def)
  show ?thesis
    using h k c
      gate_deterministic [OF h k, of "\<lparr>statusCode = 200, body = None\<rparr>"
        "\<lparr>statusCode = 404, body = Some (JString ''x'')\<rparr>"]
    by simp
qed

text \<open>
  Claim C9: when no secret is configured (\<open>process.env.API_KEY\<close> is \<open>undefined\<close>),
  every run of the middleware ends in one of the three rejections, whatever the
  Authorization header: \<open>next()\<close> is never called and the downstream handler never
  runs.
\<close>

theorem no_secret_rejects_all:
  assumes "API_KEY env = None"
  shows "authMiddleware env req res \<in>
           {Inr (req, missing_header res, Ended), Inr (req, malformed_header res, Ended),
            Inr (req, invalid_token res, Ended)} \<and>
         control_of (authMiddleware env req res) = Inr Ended \<and>
         gated handler env req res = map_sum id (\<lambda>(q, r, c). (q, r)) (authMiddleware env req res)"
proof -
  have "authMiddleware env req res \<noteq> Inr (req, res, Next)"
  proof (cases "falsy (authorization (headers req))")
    case True
    then show ?thesis
      by (simp add: gate_absent)
  next
    case False
    then obtain h where "authorization (headers req) = Some h" and "h \<noteq> []"
      by (cases "authorization (headers req)") auto
    then show ?thesis
      using assms by (simp add: gate_present split: option.split)
  qed
  then have "authMiddleware env req res \<in>
      {Inr (req, missing_header res, Ended), Inr (req, malformed_header res, Ended),
       Inr (req, invalid_token res, Ended)}"
    using gate_cases [of env req res] by blast
  then show ?thesis
    by (auto simp: control_of_def gated_def)
qed

theorem no_secret_rejects_all_witness:
  "API_KEY \<lparr>API_KEY = None\<rparr> = None \<and>
   control_of (authMiddleware \<lparr>API_KEY = None\<rparr>
       \<lparr>headers = \<lparr>authorization = Some ''Bearer undefined''\<rparr>\<rparr>
       \<lparr>statusCode = 200, body = None\<rparr>) = Inr Ended \<and>
   authMiddleware \<lparr>API_KEY = None\<rparr>
       \<lparr>headers = \<lparr>authorization = Some ''Bearer undefined''\<rparr>\<rparr>
       \<lparr>statusCode = 200, body = None\<rparr>
     = Inr (\<lparr>headers = \<lparr>authorization = Some ''Bearer undefined''\<rparr>\<rparr>,
            invalid_token \<lparr>statusCode = 200, body = None\<rparr>, Ended)"
proof -
  have k: "API_KEY \<lparr>API_KEY = None\<rparr> = None"
    by simp
  have g: "authMiddleware \<lparr>API_KEY = None\<rparr>
       \<lparr>headers = \<lparr>authorization = Some ''Bearer undefined''\<rparr>\<rparr>
       \<lparr>statusCode = 200, body = None\<rparr>
     = Inr (\<lparr>headers = \<lparr>authorization = Some ''Bearer undefined''\<rparr>\<rparr>,
            invalid_token \<lparr>statusCode = 200, body = None\<rparr>, Ended)"
    by (simp add: authMiddleware_def split_on_def array_at_def invalid_token_def status_def
        send_json_def error_object_def)
  show ?thesis
    using k g
      no_secret_rejects_all [OF k, of "\<lparr>headers = \<lparr>authorization = Some ''Bearer undefined''\<rparr>\<rparr>"
        "\<lparr>statusCode = 200, body = None\<rparr>" Pair]
    by simp
qed

end
